theory Spec2Isabelle
  imports Main
begin

section \<open>JavaScript values\<close>

text \<open>
  A property of an object is absent, or it is an own property that holds \<open>undefined\<close>,
  \<open>null\<close> or a value. Reading an absent property gives \<open>undefined\<close>; the two differ in an
  object spread, which copies an own property also when it holds \<open>undefined\<close>, and in
  \<open>JSON.stringify\<close>, which leaves such a property out.
\<close>

datatype 'a js = Absent | Undefined | Null | Val 'a

text \<open>\<open>obj.p\<close>: what reading the property gives.\<close>

fun read :: "'a js \<Rightarrow> 'a js" where
  "read Absent = Undefined"
| "read Undefined = Undefined"
| "read Null = Null"
| "read (Val v) = Val v"

text \<open>What is left of a property after \<open>JSON.parse(JSON.stringify(obj))\<close>.\<close>

fun json_prop :: "'a js \<Rightarrow> 'a js" where
  "json_prop Absent = Absent"
| "json_prop Undefined = Absent"
| "json_prop Null = Null"
| "json_prop (Val v) = Val v"

text \<open>
  Timestamps are the ISO-8601 strings written by \<open>new Date().toISOString()\<close>. The model
  carries the instant such a string denotes, in milliseconds, which is what
  \<open>new Date(s)\<close> recovers and what the comparators of the source subtract.
\<close>

type_synonym timestamp = int

text \<open>Truthiness: a string is truthy unless it is empty; an ISO timestamp is never empty.\<close>

fun truthy_str :: "string js \<Rightarrow> bool" where
  "truthy_str (Val s) = (s \<noteq> [])"
| "truthy_str _ = False"

fun truthy_time :: "timestamp js \<Rightarrow> bool" where
  "truthy_time (Val t) = True"
| "truthy_time _ = False"

text \<open>\<open>a || b\<close> on string-valued and on timestamp-valued operands.\<close>

definition or_str :: "string js \<Rightarrow> string js \<Rightarrow> string js" where
  "or_str a b = (if truthy_str a then a else read b)"

definition or_time :: "timestamp js \<Rightarrow> timestamp js \<Rightarrow> timestamp js" where
  "or_time a b = (if truthy_time a then a else read b)"

text \<open>\<open>a || []\<close> on an array-valued property: every array is truthy, also the empty one.\<close>

fun or_empty :: "'a list js \<Rightarrow> 'a list" where
  "or_empty (Val xs) = xs"
| "or_empty _ = []"

text \<open>
  \<open>String(v)\<close>: the conversion of a value that stands in a template literal or indexes an
  object, \<open>obj[v]\<close>.
\<close>

fun string_of :: "string js \<Rightarrow> string" where
  "string_of (Val s) = s"
| "string_of Null = ''null''"
| "string_of _ = ''undefined''"

text \<open>
  Object spread \<open>{...old, ...new}\<close>, property by property: an own property of \<open>new\<close> wins,
  whatever it holds; where \<open>new\<close> has none, the one of \<open>old\<close> stays.
\<close>

fun overlay :: "'a js \<Rightarrow> 'a js \<Rightarrow> 'a js" where
  "overlay old Absent = old"
| "overlay old new = new"

text \<open>\<open>Array.prototype.find\<close> and \<open>findIndex\<close>: the first match; \<open>None\<close> is \<open>undefined\<close> and \<open>-1\<close>.\<close>

fun find_first :: "('a \<Rightarrow> bool) \<Rightarrow> 'a list \<Rightarrow> 'a option" where
  "find_first P [] = None"
| "find_first P (x # xs) = (if P x then Some x else find_first P xs)"

fun findIndex :: "('a \<Rightarrow> bool) \<Rightarrow> 'a list \<Rightarrow> nat option" where
  "findIndex P [] = None"
| "findIndex P (x # xs) =
     (if P x then Some 0 else (case findIndex P xs of None \<Rightarrow> None | Some i \<Rightarrow> Some (Suc i)))"

text \<open>\<open>xs[0]\<close>: \<open>undefined\<close> on the empty array.\<close>

fun first_elem :: "'a list \<Rightarrow> 'a option" where
  "first_elem [] = None"
| "first_elem (x # xs) = Some x"

text \<open>
  \<open>Array.prototype.sort(cmp)\<close> is stable: \<open>a\<close> stays before \<open>b\<close> unless \<open>cmp(a, b) > 0\<close>.
  For a consistent comparator every stable sort gives the same array; the model is the
  stable insertion sort.
\<close>

fun insert_sorted :: "('a \<Rightarrow> 'a \<Rightarrow> int) \<Rightarrow> 'a \<Rightarrow> 'a list \<Rightarrow> 'a list" where
  "insert_sorted cmp x [] = [x]"
| "insert_sorted cmp x (y # ys) =
     (if cmp x y \<le> 0 then x # y # ys else y # insert_sorted cmp x ys)"

definition js_sort :: "('a \<Rightarrow> 'a \<Rightarrow> int) \<Rightarrow> 'a list \<Rightarrow> 'a list" where
  "js_sort cmp xs = foldr (insert_sorted cmp) xs []"

text \<open>
  \<open>new Date(v)\<close> as a number: the instant of an ISO string, 0 for \<open>null\<close>, and \<open>NaN\<close>
  (\<open>None\<close>) for \<open>undefined\<close>.
\<close>

fun new_Date :: "timestamp js \<Rightarrow> int option" where
  "new_Date (Val t) = Some t"
| "new_Date Null = Some 0"
| "new_Date _ = None"

text \<open>\<open>x - y\<close> as a sort comparator's result: \<open>sort\<close> reads \<open>NaN\<close> as 0.\<close>

fun date_diff :: "int option \<Rightarrow> int option \<Rightarrow> int" where
  "date_diff (Some x) (Some y) = x - y"
| "date_diff _ _ = 0"

subsection \<open>Plain objects as dictionaries\<close>

text \<open>
  The objects that \<open>JSON.parse\<close> and object literals make inherit from \<open>Object.prototype\<close>.
  A map holds the own properties; the names below are the inherited ones. \<open>obj[k]\<close> gives
  the own property when there is one, else the inherited function (for \<open>__proto__\<close>, the
  prototype itself), which is truthy and has no properties of the application, else
  \<open>undefined\<close>.
\<close>

definition inherited_keys :: "string list" where
  "inherited_keys =
     [''constructor'', ''__defineGetter__'', ''__defineSetter__'', ''hasOwnProperty'',
      ''__lookupGetter__'', ''__lookupSetter__'', ''isPrototypeOf'', ''propertyIsEnumerable'',
      ''toString'', ''valueOf'', ''__proto__'', ''toLocaleString'']"

datatype 'a slot = Own 'a | Inherited | Missing

definition js_get :: "(string \<rightharpoonup> 'a) \<Rightarrow> string \<Rightarrow> 'a slot" where
  "js_get obj k =
     (case obj k of
        Some v \<Rightarrow> Own v
      | None \<Rightarrow> if k \<in> set inherited_keys then Inherited else Missing)"

text \<open>
  \<open>obj[k] = v\<close> with an object \<open>v\<close>: an own property is set or made, except that on an
  object without an own \<open>__proto__\<close> the key \<open>__proto__\<close> reaches the inherited setter, which
  changes the prototype and makes no own property.
\<close>

definition js_set :: "(string \<rightharpoonup> 'a) \<Rightarrow> string \<Rightarrow> 'a \<Rightarrow> (string \<rightharpoonup> 'a)" where
  "js_set obj k v = (if k = ''__proto__'' \<and> obj k = None then obj else obj(k \<mapsto> v))"

text \<open>\<open>delete obj[k]\<close> removes an own property and nothing else.\<close>

definition js_delete :: "(string \<rightharpoonup> 'a) \<Rightarrow> string \<Rightarrow> (string \<rightharpoonup> 'a)" where
  "js_delete obj k = obj(k := None)"

subsection \<open>Errors and outcomes\<close>

text \<open>
  A call returns, or it throws; either way it leaves a state behind, since what was
  written before the throw stays written. \<open>final\<close> is that state.
\<close>

datatype error = TypeError

datatype 's outcome = Returns (final: 's) | Throws error (final: 's)

section \<open>Entities\<close>

record document =
  doc_id :: "string js"
  doc_title :: "string js"
  doc_type :: "string js"
  doc_content :: "string js"
  doc_createdAt :: "timestamp js"
  doc_updatedAt :: "timestamp js"

record message =
  msg_id :: string
  msg_type :: string
  msg_content :: string
  msg_timestamp :: timestamp
  msg_selectedText :: "string js"

record chat_session =
  chat_id :: "string js"
  chat_title :: "string js"
  chat_docId :: "string js"
  chat_messages :: "message list js"
  chat_createdAt :: "timestamp js"
  chat_updatedAt :: "timestamp js"

record uploaded_file =
  file_id :: "string js"
  file_name :: "string js"
  file_content :: "string js"
  file_uploadedAt :: "timestamp js"
  file_updatedAt :: "timestamp js"

record settings =
  theme :: string
  language :: string
  autoSave :: bool
  exportFormat :: string

text \<open>The entries of the library mirror: the entity, spread, with two derived properties.\<close>

record doc_mirror =
  dm_doc :: document
  dm_contentType :: string
  dm_fileName :: string

record chat_mirror =
  cm_chat :: chat_session
  cm_contentType :: string
  cm_fileName :: string

record project =
  proj_name :: string
  proj_docs :: "string \<rightharpoonup> doc_mirror"
  proj_chats :: "string \<rightharpoonup> chat_mirror"
  proj_files :: "string \<rightharpoonup> uploaded_file"

type_synonym lib_root = "string \<rightharpoonup> project"

subsection \<open>The entities as JSON text gives them back\<close>

definition json_document :: "document \<Rightarrow> document" where
  "json_document d =
     \<lparr>doc_id = json_prop (doc_id d), doc_title = json_prop (doc_title d),
      doc_type = json_prop (doc_type d), doc_content = json_prop (doc_content d),
      doc_createdAt = json_prop (doc_createdAt d), doc_updatedAt = json_prop (doc_updatedAt d)\<rparr>"

definition json_message :: "message \<Rightarrow> message" where
  "json_message m = m\<lparr>msg_selectedText := json_prop (msg_selectedText m)\<rparr>"

fun json_messages :: "message list js \<Rightarrow> message list js" where
  "json_messages (Val ms) = Val (map json_message ms)"
| "json_messages x = json_prop x"

definition json_chat :: "chat_session \<Rightarrow> chat_session" where
  "json_chat c =
     \<lparr>chat_id = json_prop (chat_id c), chat_title = json_prop (chat_title c),
      chat_docId = json_prop (chat_docId c), chat_messages = json_messages (chat_messages c),
      chat_createdAt = json_prop (chat_createdAt c),
      chat_updatedAt = json_prop (chat_updatedAt c)\<rparr>"

definition json_file :: "uploaded_file \<Rightarrow> uploaded_file" where
  "json_file f =
     \<lparr>file_id = json_prop (file_id f), file_name = json_prop (file_name f),
      file_content = json_prop (file_content f), file_uploadedAt = json_prop (file_uploadedAt f),
      file_updatedAt = json_prop (file_updatedAt f)\<rparr>"

definition json_project :: "project \<Rightarrow> project" where
  "json_project p =
     \<lparr>proj_name = proj_name p,
      proj_docs = (\<lambda>k. map_option (\<lambda>m. m\<lparr>dm_doc := json_document (dm_doc m)\<rparr>) (proj_docs p k)),
      proj_chats = (\<lambda>k. map_option (\<lambda>m. m\<lparr>cm_chat := json_chat (cm_chat m)\<rparr>) (proj_chats p k)),
      proj_files = (\<lambda>k. map_option json_file (proj_files p k))\<rparr>"

definition json_root :: "lib_root \<Rightarrow> lib_root" where
  "json_root root = (\<lambda>k. map_option json_project (root k))"

section \<open>localStorage\<close>

text \<open>
  One cell per key. \<open>Unset\<close>: \<open>getItem\<close> returns \<open>null\<close>, the key was never written.
  \<open>Corrupt\<close>: the key holds non-empty text that \<open>JSON.parse\<close> rejects. \<open>Json v\<close>: the key holds
  \<open>JSON.stringify(v)\<close>; parsing it gives \<open>v\<close> without the properties that held \<open>undefined\<close>.
  \<open>setItem\<close> is taken to succeed (no quota fault), so the \<open>catch\<close> branches of the writers
  are never entered and the writers return \<open>true\<close>.
\<close>

datatype 'a cell = Unset | Corrupt | Json 'a

record local_storage =
  ls_documents :: "document list cell"
  ls_chats :: "chat_session list cell"
  ls_uploadedFiles :: "uploaded_file list cell"
  ls_settings :: "settings cell"
  ls_lib :: "lib_root cell"

section \<open>StorageManager\<close>

subsection \<open>generateId\<close>

text \<open>
  \<open>Date.now().toString(36) + Math.random().toString(36).substr(2)\<close>. The clock reading is
  a number of milliseconds; of the random number the model takes what the call uses, the
  digits that follow \<open>0.\<close> in base 36.
\<close>

definition digits36 :: string where
  "digits36 = ''0123456789abcdefghijklmnopqrstuvwxyz''"

function to_base36 :: "nat \<Rightarrow> string" where
  "to_base36 n =
     (if n < 36 then [digits36 ! n] else to_base36 (n div 36) @ [digits36 ! (n mod 36)])"
  by pat_completeness auto
termination
  by (relation "measure (\<lambda>n. n)") auto

declare to_base36.simps [simp del]

definition generateId :: "nat \<Rightarrow> string \<Rightarrow> string" where
  "generateId date_now random_digits = to_base36 date_now @ random_digits"

text \<open>
  What one call of a \<open>save...\<close> method of \<open>StorageManager\<close> reads from outside: the two
  clock readings of the object literal, and the clock and the random digits of
  \<open>generateId()\<close>.
\<close>

record save_env =
  now_created :: timestamp
  now_updated :: timestamp
  id_clock :: nat
  id_random :: string

subsection \<open>The flat collections\<close>

definition getDocuments :: "local_storage \<Rightarrow> document list option" where
  "getDocuments ls =
     (case ls_documents ls of
        Unset \<Rightarrow> None
      | Corrupt \<Rightarrow> Some []
      | Json ds \<Rightarrow> Some (map json_document ds))"

definition saveDocuments :: "document list \<Rightarrow> local_storage \<Rightarrow> local_storage" where
  "saveDocuments documents ls = ls\<lparr>ls_documents := Json documents\<rparr>"

definition getChats :: "local_storage \<Rightarrow> chat_session list option" where
  "getChats ls =
     (case ls_chats ls of
        Unset \<Rightarrow> None
      | Corrupt \<Rightarrow> Some []
      | Json cs \<Rightarrow> Some (map json_chat cs))"

definition saveChats :: "chat_session list \<Rightarrow> local_storage \<Rightarrow> local_storage" where
  "saveChats chats ls = ls\<lparr>ls_chats := Json chats\<rparr>"

definition getUploadedFiles :: "local_storage \<Rightarrow> uploaded_file list option" where
  "getUploadedFiles ls =
     (case ls_uploadedFiles ls of
        Unset \<Rightarrow> None
      | Corrupt \<Rightarrow> Some []
      | Json fs \<Rightarrow> Some (map json_file fs))"

definition saveUploadedFiles :: "uploaded_file list \<Rightarrow> local_storage \<Rightarrow> local_storage" where
  "saveUploadedFiles files ls = ls\<lparr>ls_uploadedFiles := Json files\<rparr>"

definition getSettings :: "local_storage \<Rightarrow> settings option" where
  "getSettings ls =
     (case ls_settings ls of Unset \<Rightarrow> None | Corrupt \<Rightarrow> None | Json s \<Rightarrow> Some s)"

definition saveSettings :: "settings \<Rightarrow> local_storage \<Rightarrow> local_storage" where
  "saveSettings s ls = ls\<lparr>ls_settings := Json s\<rparr>"

definition default_settings :: settings where
  "default_settings =
     \<lparr>theme = ''light'', language = ''en'', autoSave = True, exportFormat = ''docx''\<rparr>"

definition initializeStorage :: "local_storage \<Rightarrow> local_storage" where
  "initializeStorage ls =
     (let ls1 = (if getDocuments ls = None then saveDocuments [] ls else ls);
          ls2 = (if getChats ls1 = None then saveChats [] ls1 else ls1);
          ls3 = (if getUploadedFiles ls2 = None then saveUploadedFiles [] ls2 else ls2);
          ls4 = (if getSettings ls3 = None then saveSettings default_settings ls3 else ls3)
      in if ls_lib ls4 = Unset then ls4\<lparr>ls_lib := Json Map.empty\<rparr> else ls4)"

text \<open>A storage no key of which was ever written.\<close>

definition unset_storage :: local_storage where
  "unset_storage =
     \<lparr>ls_documents = Unset, ls_chats = Unset, ls_uploadedFiles = Unset,
      ls_settings = Unset, ls_lib = Unset\<rparr>"

subsection \<open>The library mirror\<close>

definition getLibRoot :: "local_storage \<Rightarrow> lib_root" where
  "getLibRoot ls =
     (case ls_lib ls of Unset \<Rightarrow> Map.empty | Corrupt \<Rightarrow> Map.empty | Json r \<Rightarrow> json_root r)"

definition setLibRoot :: "lib_root \<Rightarrow> local_storage \<Rightarrow> local_storage" where
  "setLibRoot root ls = ls\<lparr>ls_lib := Json root\<rparr>"

text \<open>
  \<open>if (!root[projectId]) root[projectId] = {...}\<close>: an inherited name reads as truthy, so
  no project is made for it.
\<close>

definition ensureProject :: "lib_root \<Rightarrow> string \<Rightarrow> lib_root" where
  "ensureProject root projectId =
     (case js_get root projectId of
        Missing \<Rightarrow> js_set root projectId
          \<lparr>proj_name = projectId, proj_docs = Map.empty, proj_chats = Map.empty,
           proj_files = Map.empty\<rparr>
      | Inherited \<Rightarrow> root
      | Own p \<Rightarrow> root)"

text \<open>
  The character class \<open>[a-z0-9-_]\<close> under the flag \<open>i\<close>: the ASCII letters of both cases,
  the digits, the hyphen and the underscore.
\<close>

definition word_char :: "char \<Rightarrow> bool" where
  "word_char c =
     (c \<in> set ''abcdefghijklmnopqrstuvwxyzABCDEFGHIJKLMNOPQRSTUVWXYZ0123456789-_'')"

text \<open>
  \<open>s.replace(/[^a-z0-9-_]+/gi, '_')\<close>: every maximal run of characters outside the class
  becomes one underscore. The flag tells whether the previous character was part of a
  run that is already replaced.
\<close>

fun replace_runs :: "bool \<Rightarrow> string \<Rightarrow> string" where
  "replace_runs in_run [] = []"
| "replace_runs in_run (c # cs) =
     (if word_char c then c # replace_runs False cs
      else if in_run then replace_runs True cs
      else CHR ''_'' # replace_runs True cs)"

text \<open>
  \<open>libSaveDoc\<close> and \<open>libSaveChat\<close> read the root, call \<open>ensureProject\<close>, assign the entry
  to \<open>root[projectId].docs[doc.id]\<close> and write the root back. When \<open>root[projectId]\<close> is an
  inherited value, it has no \<open>docs\<close>, and the assignment throws a \<open>TypeError\<close> before
  anything is written.
\<close>

definition libSaveDoc :: "string \<Rightarrow> document \<Rightarrow> local_storage \<Rightarrow> local_storage outcome" where
  "libSaveDoc projectId doc ls =
     (let root = ensureProject (getLibRoot ls) projectId in
      case js_get root projectId of
        Own p \<Rightarrow>
          Returns (setLibRoot
            (root(projectId \<mapsto> p\<lparr>proj_docs := js_set (proj_docs p) (string_of (doc_id doc))
               \<lparr>dm_doc = doc, dm_contentType = ''markdown'',
                dm_fileName =
                  replace_runs False (string_of (or_str (doc_title doc) (Val ''document'')))
                    @ ''.md''\<rparr>\<rparr>))
            ls)
      | Inherited \<Rightarrow> Throws TypeError ls
      | Missing \<Rightarrow> Throws TypeError ls)"

definition libSaveChat :: "string \<Rightarrow> chat_session \<Rightarrow> local_storage \<Rightarrow> local_storage outcome" where
  "libSaveChat projectId chat ls =
     (let root = ensureProject (getLibRoot ls) projectId in
      case js_get root projectId of
        Own p \<Rightarrow>
          Returns (setLibRoot
            (root(projectId \<mapsto> p\<lparr>proj_chats := js_set (proj_chats p) (string_of (chat_id chat))
               \<lparr>cm_chat = chat, cm_contentType = ''json'',
                cm_fileName =
                  replace_runs False (string_of (or_str (chat_title chat) (Val ''chat'')))
                    @ ''.json''\<rparr>\<rparr>))
            ls)
      | Inherited \<Rightarrow> Throws TypeError ls
      | Missing \<Rightarrow> Throws TypeError ls)"

text \<open>
  \<open>if (root[projectId] && root[projectId].chats[chatId]) { delete ...; setLibRoot(root) }\<close>.
  An inherited \<open>root[projectId]\<close> passes the first test and has no \<open>chats\<close>: the second
  test throws.
\<close>

definition libDeleteChat :: "string \<Rightarrow> string \<Rightarrow> local_storage \<Rightarrow> local_storage outcome" where
  "libDeleteChat projectId chatId ls =
     (let root = getLibRoot ls in
      case js_get root projectId of
        Missing \<Rightarrow> Returns ls
      | Inherited \<Rightarrow> Throws TypeError ls
      | Own p \<Rightarrow>
          (case js_get (proj_chats p) chatId of
             Missing \<Rightarrow> Returns ls
           | Inherited \<Rightarrow>
               Returns (setLibRoot
                 (root(projectId \<mapsto> p\<lparr>proj_chats := js_delete (proj_chats p) chatId\<rparr>)) ls)
           | Own c \<Rightarrow>
               Returns (setLibRoot
                 (root(projectId \<mapsto> p\<lparr>proj_chats := js_delete (proj_chats p) chatId\<rparr>)) ls)))"

text \<open>\<open>getLibProject(projectId)\<close>: \<open>root[projectId] || null\<close>.\<close>

definition getLibProject :: "string \<Rightarrow> local_storage \<Rightarrow> project slot" where
  "getLibProject projectId ls = js_get (getLibRoot ls) projectId"

subsection \<open>Documents and chat sessions\<close>

definition merge_document :: "document \<Rightarrow> document \<Rightarrow> document" where
  "merge_document old new =
     \<lparr>doc_id = overlay (doc_id old) (doc_id new),
      doc_title = overlay (doc_title old) (doc_title new),
      doc_type = overlay (doc_type old) (doc_type new),
      doc_content = overlay (doc_content old) (doc_content new),
      doc_createdAt = overlay (doc_createdAt old) (doc_createdAt new),
      doc_updatedAt = overlay (doc_updatedAt old) (doc_updatedAt new)\<rparr>"

definition normalize_document :: "save_env \<Rightarrow> document \<Rightarrow> document" where
  "normalize_document e d =
     d\<lparr>doc_id := or_str (doc_id d) (Val (generateId (id_clock e) (id_random e))),
       doc_createdAt := or_time (doc_createdAt d) (Val (now_created e)),
       doc_updatedAt := Val (now_updated e)\<rparr>"

text \<open>
  \<open>saveDocument\<close> mirrors into the library before it writes the collection: when
  \<open>libSaveDoc\<close> throws, \<open>saveDocuments\<close> is not reached.
\<close>

definition saveDocument ::
  "save_env \<Rightarrow> document \<Rightarrow> string js \<Rightarrow> local_storage \<Rightarrow> local_storage outcome" where
  "saveDocument e d projectId ls =
     (let documents = (case getDocuments ls of None \<Rightarrow> [] | Some ds \<Rightarrow> ds);
          existingIndex = findIndex (\<lambda>doc. read (doc_id doc) = read (doc_id d)) documents;
          normalized = normalize_document e d;
          documents' = (case existingIndex of
             Some i \<Rightarrow> documents[i := merge_document (documents ! i) normalized]
           | None \<Rightarrow> documents @ [normalized])
      in if truthy_str projectId
         then (case libSaveDoc (string_of projectId) normalized ls of
                 Throws err ls' \<Rightarrow> Throws err ls'
               | Returns ls' \<Rightarrow> Returns (saveDocuments documents' ls'))
         else Returns (saveDocuments documents' ls))"


definition merge_chat :: "chat_session \<Rightarrow> chat_session \<Rightarrow> chat_session" where
  "merge_chat old new =
     \<lparr>chat_id = overlay (chat_id old) (chat_id new),
      chat_title = overlay (chat_title old) (chat_title new),
      chat_docId = overlay (chat_docId old) (chat_docId new),
      chat_messages = overlay (chat_messages old) (chat_messages new),
      chat_createdAt = overlay (chat_createdAt old) (chat_createdAt new),
      chat_updatedAt = overlay (chat_updatedAt old) (chat_updatedAt new)\<rparr>"

definition normalize_chat :: "save_env \<Rightarrow> chat_session \<Rightarrow> chat_session" where
  "normalize_chat e c =
     c\<lparr>chat_id := or_str (chat_id c) (Val (generateId (id_clock e) (id_random e))),
       chat_createdAt := or_time (chat_createdAt c) (Val (now_created e)),
       chat_updatedAt := Val (now_updated e)\<rparr>"

definition saveChatSession ::
  "save_env \<Rightarrow> chat_session \<Rightarrow> string js \<Rightarrow> local_storage \<Rightarrow> local_storage outcome" where
  "saveChatSession e c projectId ls =
     (let chats = (case getChats ls of None \<Rightarrow> [] | Some cs \<Rightarrow> cs);
          existingIndex = findIndex (\<lambda>chat. read (chat_id chat) = read (chat_id c)) chats;
          normalized = normalize_chat e c;
          chats' = (case existingIndex of
             Some i \<Rightarrow> chats[i := merge_chat (chats ! i) normalized]
           | None \<Rightarrow> chats @ [normalized]);
          proj = or_str (or_str projectId (chat_docId normalized)) Null
      in if truthy_str proj
         then (case libSaveChat (string_of proj) normalized ls of
                 Throws err ls' \<Rightarrow> Throws err ls'
               | Returns ls' \<Rightarrow> Returns (saveChats chats' ls'))
         else Returns (saveChats chats' ls))"

text \<open>\<open>deleteChatSession\<close> writes the collection first and then turns to the library.\<close>

definition deleteChatSession ::
  "string js \<Rightarrow> string js \<Rightarrow> local_storage \<Rightarrow> local_storage outcome" where
  "deleteChatSession i projectId ls =
     (let chats = (case getChats ls of None \<Rightarrow> [] | Some cs \<Rightarrow> cs);
          filteredChats = filter (\<lambda>chat. read (chat_id chat) \<noteq> read i) chats;
          ls' = saveChats filteredChats ls
      in if truthy_str projectId then libDeleteChat (string_of projectId) (string_of i) ls'
         else Returns ls')"

definition getChatSession :: "string js \<Rightarrow> local_storage \<Rightarrow> error + chat_session option" where
  "getChatSession i ls =
     (case getChats ls of
        None \<Rightarrow> Inl TypeError
      | Some cs \<Rightarrow> Inr (find_first (\<lambda>chat. read (chat_id chat) = read i) cs))"

text \<open>
  The spec's \<open>getAll(C)\<close> over its four collections: in the source, the four getters.
\<close>

datatype collection = Documents | Chats | UploadedFiles | Settings

datatype collection_value =
    DocumentList "document list"
  | ChatList "chat_session list"
  | FileList "uploaded_file list"
  | SettingsObject settings

fun getAll :: "collection \<Rightarrow> local_storage \<Rightarrow> collection_value option" where
  "getAll Documents ls = map_option DocumentList (getDocuments ls)"
| "getAll Chats ls = map_option ChatList (getChats ls)"
| "getAll UploadedFiles ls = map_option FileList (getUploadedFiles ls)"
| "getAll Settings ls = map_option SettingsObject (getSettings ls)"

fun is_empty_list :: "collection_value \<Rightarrow> bool" where
  "is_empty_list (DocumentList ds) = (ds = [])"
| "is_empty_list (ChatList cs) = (cs = [])"
| "is_empty_list (FileList fs) = (fs = [])"
| "is_empty_list (SettingsObject s) = False"

fun key_unset :: "collection \<Rightarrow> local_storage \<Rightarrow> bool" where
  "key_unset Documents ls = (ls_documents ls = Unset)"
| "key_unset Chats ls = (ls_chats ls = Unset)"
| "key_unset UploadedFiles ls = (ls_uploadedFiles ls = Unset)"
| "key_unset Settings ls = (ls_settings ls = Unset)"

section \<open>ChatInterface\<close>

text \<open>
  The document the editor displays, as \<open>window.documentEditor.getCurrentDocument()\<close>
  returns it: \<open>None\<close> for \<open>null\<close>. Every document the application creates has an id and
  a title, both strings.
\<close>

record current_doc =
  cd_id :: string
  cd_title :: string

text \<open>
  The fields of the class that the session logic reads and writes. The DOM (the message
  list on the page, the session selector, the toasts) is left out: nothing of the session
  logic reads it back.
\<close>

record chat_interface =
  isOpen :: bool
  currentSession :: "chat_session option"
  messages :: "message list"
  selectedText :: string
  sessions :: "chat_session list"
  associatedDocId :: "string js"

text \<open>
  What one call of a method of \<open>ChatInterface\<close> reads from outside: the clock at the start
  of \<open>createNewSession\<close>, the clock and the random digits of \<open>storageManager.generateId()\<close>,
  the time label of the title, the clock and the random digits of \<open>generateMessageId()\<close>
  (the same expression as \<open>generateId\<close>), the clock in \<open>saveChatSession\<close>, and what the
  storage manager reads.
\<close>

record chat_env =
  ce_timestamp :: timestamp
  ce_id_clock :: nat
  ce_id_random :: string
  ce_time_label :: string
  ce_msg_clock :: nat
  ce_msg_random :: string
  ce_save_now :: timestamp
  ce_store :: save_env

text \<open>
  \<open>this.messages.push(message)\<close>, as \<open>sendMessage\<close> does for each message. \<open>this.messages\<close>
  is the list of the current session in memory: \<open>saveChatSession\<close> copies it into
  \<open>currentSession.messages\<close> before every write, and the guard of \<open>createNewSession\<close> reads
  its length.
\<close>

definition pushMessage :: "message \<Rightarrow> chat_interface \<Rightarrow> chat_interface" where
  "pushMessage m ci = ci\<lparr>messages := messages ci @ [m]\<rparr>"

text \<open>
  \<open>ChatInterface.saveChatSession()\<close>. It updates the current session in memory, then calls
  the storage manager's \<open>saveChatSession\<close> with no project id, then reloads \<open>this.sessions\<close>;
  when the storage manager throws, the reload is not reached.
\<close>

definition ci_saveChatSession ::
  "chat_env \<Rightarrow> chat_interface \<times> local_storage \<Rightarrow> (chat_interface \<times> local_storage) outcome" where
  "ci_saveChatSession e st =
     (case currentSession (fst st) of
        None \<Rightarrow> Returns st
      | Some cs \<Rightarrow>
          (let cs' = cs\<lparr>chat_messages := Val (messages (fst st)),
                        chat_updatedAt := Val (ce_save_now e),
                        chat_docId := or_str (or_str (associatedDocId (fst st)) (chat_docId cs)) Null\<rparr>;
               ci' = (fst st)\<lparr>currentSession := Some cs'\<rparr>
           in case saveChatSession (ce_store e) cs' Null (snd st) of
                Throws err ls' \<Rightarrow> Throws err (ci', ls')
              | Returns ls' \<Rightarrow>
                  Returns (ci'\<lparr>sessions := (case getChats ls' of None \<Rightarrow> [] | Some cs \<Rightarrow> cs)\<rparr>,
                           ls')))"

definition session_title :: "current_doc option \<Rightarrow> string \<Rightarrow> string" where
  "session_title doc time_label =
     (case doc of
        Some d \<Rightarrow> ''Chat: '' @ take 30 (cd_title d) @ (if length (cd_title d) > 30 then ''...'' else [])
      | None \<Rightarrow> ''New Chat '' @ time_label)"

definition welcome_content :: "current_doc option \<Rightarrow> string" where
  "welcome_content doc =
     (case doc of
        Some d \<Rightarrow> ''Hello! I'' @ [CHR 0x27] @ ''m ready to help you understand '' @ [CHR 0x22]
          @ cd_title d @ [CHR 0x22]
          @ ''. Select any text in your document and ask me questions about it!''
      | None \<Rightarrow> ''Hello! I'' @ [CHR 0x27] @ ''m your AI learning assistant. ''
          @ ''Upload a document and select any text to ask me questions about it!'')"

text \<open>The welcome message: an object literal with no \<open>selectedText\<close> property.\<close>

definition welcome_message :: "current_doc option \<Rightarrow> chat_env \<Rightarrow> message" where
  "welcome_message doc e =
     \<lparr>msg_id = generateId (ce_msg_clock e) (ce_msg_random e), msg_type = ''ai'',
      msg_content = welcome_content doc, msg_timestamp = ce_timestamp e,
      msg_selectedText = Absent\<rparr>"

definition createNewSession ::
  "bool \<Rightarrow> current_doc option \<Rightarrow> chat_env \<Rightarrow> chat_interface \<times> local_storage
     \<Rightarrow> (chat_interface \<times> local_storage) outcome" where
  "createNewSession forceNew doc e st =
     (if \<not> forceNew \<and> currentSession (fst st) \<noteq> None \<and> length (messages (fst st)) \<le> 1
      then Returns st
      else
        (let timestamp = ce_timestamp e;
             session =
               \<lparr>chat_id = Val (generateId (ce_id_clock e) (ce_id_random e)),
                chat_title = Val (session_title doc (ce_time_label e)),
                chat_docId = (case doc of
                   Some d \<Rightarrow> Val (cd_id d)
                 | None \<Rightarrow> or_str (associatedDocId (fst st)) Null),
                chat_messages = Val [],
                chat_createdAt = Val timestamp,
                chat_updatedAt = Val timestamp\<rparr>;
             welcomeMessage = welcome_message doc e;
             ci1 = (fst st)\<lparr>currentSession := Some session, messages := []\<rparr>
         in ci_saveChatSession e (pushMessage welcomeMessage ci1, snd st)))"

text \<open>The comparator \<open>(a, b) => new Date(b.updatedAt) - new Date(a.updatedAt)\<close>.\<close>

definition by_updatedAt_desc :: "chat_session \<Rightarrow> chat_session \<Rightarrow> int" where
  "by_updatedAt_desc a b = date_diff (new_Date (chat_updatedAt b)) (new_Date (chat_updatedAt a))"

definition loadChatSessions ::
  "current_doc option \<Rightarrow> chat_env \<Rightarrow> chat_interface \<times> local_storage
     \<Rightarrow> (chat_interface \<times> local_storage) outcome" where
  "loadChatSessions currentDoc e st =
     (let stored = (case getChats (snd st) of None \<Rightarrow> [] | Some cs \<Rightarrow> cs) in
      if length stored > 0 then
        (let sorted = js_sort by_updatedAt_desc stored;
             sessionToLoad0 = first_elem sorted;
             sessionToLoad = (case currentDoc of
                None \<Rightarrow> sessionToLoad0
              | Some d \<Rightarrow>
                  (let docSessions = filter (\<lambda>s. read (chat_docId s) = Val (cd_id d)) sorted in
                   if length docSessions > 0
                   then first_elem (js_sort by_updatedAt_desc docSessions)
                   else sessionToLoad0));
             assoc = (case currentDoc of
                None \<Rightarrow> associatedDocId (fst st)
              | Some d \<Rightarrow> Val (cd_id d))
         in Returns
            ((fst st)\<lparr>sessions := sorted, associatedDocId := assoc,
                       currentSession := sessionToLoad,
                       messages := (case sessionToLoad of
                          None \<Rightarrow> []
                        | Some s \<Rightarrow> or_empty (chat_messages s))\<rparr>,
             snd st))
      else createNewSession False currentDoc e ((fst st)\<lparr>sessions := stored\<rparr>, snd st))"

definition switchSession ::
  "string js \<Rightarrow> chat_env \<Rightarrow> chat_interface \<times> local_storage
     \<Rightarrow> (chat_interface \<times> local_storage) outcome" where
  "switchSession sessionId e st =
     (if \<not> truthy_str sessionId then Returns st
      else
        (let stored = (case getChats (snd st) of None \<Rightarrow> [] | Some cs \<Rightarrow> cs) in
         case find_first (\<lambda>s. read (chat_id s) = read sessionId) stored of
           None \<Rightarrow> Returns st
         | Some found \<Rightarrow>
             (case (if currentSession (fst st) \<noteq> None then ci_saveChatSession e st
                    else Returns st) of
                Throws err st' \<Rightarrow> Throws err st'
              | Returns st1 \<Rightarrow>
                  Returns ((fst st1)\<lparr>currentSession := Some found,
                                      messages := or_empty (chat_messages found),
                                      associatedDocId := or_str (chat_docId found) Null\<rparr>,
                           snd st1))))"

section \<open>FileSystemManager\<close>

text \<open>
  \<open>FileSystemManager.sanitizeFileName\<close>: \<open>name.replace(/[^a-z0-9-_]/gi, '_').toLowerCase()\<close>.
  Here every single character outside the class becomes an underscore.
\<close>

definition to_lower :: "char \<Rightarrow> char" where
  "to_lower c =
     (case map_of (zip ''ABCDEFGHIJKLMNOPQRSTUVWXYZ'' ''abcdefghijklmnopqrstuvwxyz'') c of
        None \<Rightarrow> c
      | Some l \<Rightarrow> l)"

definition sanitizeFileName :: "string \<Rightarrow> string" where
  "sanitizeFileName name = map to_lower (map (\<lambda>c. if word_char c then c else CHR ''_'') name)"

section \<open>Notions the properties are stated in\<close>

text \<open>\<open>a\<close> was updated no earlier than \<open>b\<close>, by the dates the comparator reads.\<close>

definition later_or_equal :: "chat_session \<Rightarrow> chat_session \<Rightarrow> bool" where
  "later_or_equal a b =
     (case (new_Date (chat_updatedAt a), new_Date (chat_updatedAt b)) of
        (Some x, Some y) \<Rightarrow> y \<le> x
      | _ \<Rightarrow> False)"

text \<open>\<open>getDocuments() || []\<close>, and the stored records that carry a given id.\<close>

definition stored_documents :: "local_storage \<Rightarrow> document list" where
  "stored_documents ls = (case getDocuments ls of None \<Rightarrow> [] | Some ds \<Rightarrow> ds)"


text \<open>\<open>getChats() || []\<close>.\<close>

definition stored_chats :: "local_storage \<Rightarrow> chat_session list" where
  "stored_chats ls = (case getChats ls of None \<Rightarrow> [] | Some cs \<Rightarrow> cs)"


definition upsert_chat :: "save_env \<Rightarrow> chat_session \<Rightarrow> chat_session list \<Rightarrow> chat_session list" where
  "upsert_chat e c chats =
     (case findIndex (\<lambda>chat. read (chat_id chat) = read (chat_id c)) chats of
        Some i \<Rightarrow> chats[i := json_chat (merge_chat (chats ! i) (normalize_chat e c))]
      | None \<Rightarrow> chats @ [json_chat (normalize_chat e c)])"


text \<open>
  A grouping key under which the library can hold a project: none at all (the library is
  then not touched), or a string that is not the name of an inherited property.
\<close>

definition plain_group :: "string js \<Rightarrow> bool" where
  "plain_group p = (\<not> truthy_str p \<or> string_of p \<notin> set inherited_keys)"


subsection \<open>Sample data\<close>

definition ci0 :: chat_interface where
  "ci0 = \<lparr>isOpen = False, currentSession = None, messages = [], selectedText = [],
           sessions = [], associatedDocId = Null\<rparr>"

definition save_env1 :: save_env where
  "save_env1 = \<lparr>now_created = 102, now_updated = 103, id_clock = 1, id_random = ''g1''\<rparr>"

definition save_env2 :: save_env where
  "save_env2 = \<lparr>now_created = 202, now_updated = 203, id_clock = 1, id_random = ''g2''\<rparr>"

definition env0 :: chat_env where
  "env0 = \<lparr>ce_timestamp = 100, ce_id_clock = 1, ce_id_random = ''new'',
            ce_time_label = ''10:00:00'', ce_msg_clock = 1, ce_msg_random = ''msg'',
            ce_save_now = 101, ce_store = save_env1\<rparr>"

definition session_S1 :: chat_session where
  "session_S1 = \<lparr>chat_id = Val ''s1'', chat_title = Val ''Chat: A'', chat_docId = Val ''D1'',
                  chat_messages = Val [], chat_createdAt = Val 1, chat_updatedAt = Val 10\<rparr>"

definition session_S2 :: chat_session where
  "session_S2 = \<lparr>chat_id = Val ''s2'', chat_title = Val ''Chat: B'', chat_docId = Val ''D2'',
                  chat_messages = Val [], chat_createdAt = Val 2, chat_updatedAt = Val 20\<rparr>"

definition seeded_storage :: local_storage where
  "seeded_storage = initializeStorage unset_storage"

definition storage_S1_S2 :: local_storage where
  "storage_S1_S2 = saveChats [session_S1, session_S2] seeded_storage"

definition doc_with_id :: document where
  "doc_with_id = \<lparr>doc_id = Val ''d1'', doc_title = Val ''Intro: Chapter 1!'',
                   doc_type = Val ''summary'', doc_content = Val ''text'',
                   doc_createdAt = Val 5, doc_updatedAt = Absent\<rparr>"


definition doc_without_createdAt :: document where
  "doc_without_createdAt = \<lparr>doc_id = Val ''d2'', doc_title = Val ''Notes'',
                             doc_type = Val ''summary'', doc_content = Val ''text'',
                             doc_createdAt = Absent, doc_updatedAt = Absent\<rparr>"

definition sample_message :: message where
  "sample_message = \<lparr>msg_id = ''m1'', msg_type = ''user'', msg_content = ''What is this?'',
                      msg_timestamp = 50, msg_selectedText = Val ''''\<rparr>"

section \<open>Reading, truthiness and JSON\<close>

lemma read_json_prop [simp]: "read (json_prop x) = read x"
  by (cases x) simp_all

lemma truthy_str_json_prop [simp]: "truthy_str (json_prop x) = truthy_str x"
  by (cases x) simp_all

lemma json_prop_idem [simp]: "json_prop (json_prop x) = json_prop x"
  by (cases x) simp_all

lemma json_prop_Val_iff [simp]: "json_prop x = Val v \<longleftrightarrow> x = Val v"
  by (cases x) simp_all

lemma truthy_str_read [simp]: "truthy_str (read x) = truthy_str x"
  by (cases x) simp_all

lemma read_truthy: "truthy_str x \<Longrightarrow> read x = x"
  by (cases x) simp_all

lemma read_read [simp]: "read (read x) = read x"
  by (cases x) simp_all

lemma new_Date_json_prop [simp]: "new_Date (json_prop x) = new_Date x"
  by (cases x) simp_all

lemma overlay_truthy: "truthy_str b \<Longrightarrow> overlay a b = b"
  by (cases b) simp_all

lemma overlay_Val [simp]: "overlay a (Val v) = Val v"
  by simp

lemma json_message_idem [simp]: "json_message (json_message m) = json_message m"
  by (simp add: json_message_def)

lemma json_messages_idem [simp]: "json_messages (json_messages x) = json_messages x"
  by (cases x) simp_all

lemma json_document_idem [simp]: "json_document (json_document d) = json_document d"
  by (simp add: json_document_def)

lemma json_chat_idem [simp]: "json_chat (json_chat c) = json_chat c"
  by (simp add: json_chat_def)


lemma json_chat_fields:
  "chat_id (json_chat c) = json_prop (chat_id c)"
  "chat_title (json_chat c) = json_prop (chat_title c)"
  "chat_docId (json_chat c) = json_prop (chat_docId c)"
  "chat_messages (json_chat c) = json_messages (chat_messages c)"
  "chat_createdAt (json_chat c) = json_prop (chat_createdAt c)"
  "chat_updatedAt (json_chat c) = json_prop (chat_updatedAt c)"
  by (simp_all add: json_chat_def)

section \<open>Ids made by generateId\<close>


lemma to_base36_nonempty: "to_base36 n \<noteq> []"
  by (subst to_base36.simps) simp

lemma length_digits36: "length digits36 = 36"
  by (simp add: digits36_def)

lemma digits36_nth: "n < 36 \<Longrightarrow> digits36 ! n \<in> set digits36"
  by (rule nth_mem) (simp only: length_digits36)

lemma to_base36_digits: "set (to_base36 n) \<subseteq> set digits36"
proof (induction n rule: to_base36.induct)
  case (1 n)
  show ?case
  proof (cases "n < 36")
    case True
    then show ?thesis
      by (subst to_base36.simps) (simp add: digits36_nth)
  next
    case False
    have "n mod 36 < 36" by simp
    then have "digits36 ! (n mod 36) \<in> set digits36" by (rule digits36_nth)
    with False "1.IH" show ?thesis
      by (subst to_base36.simps) simp
  qed
qed

lemma generateId_nonempty: "generateId t r \<noteq> []"
  by (simp add: generateId_def to_base36_nonempty)

lemma generateId_truthy [simp]: "truthy_str (Val (generateId t r))"
  by (simp add: generateId_nonempty)

text \<open>An id made by \<open>generateId\<close> starts with a digit of base 36, so it is not \<open>__proto__\<close>.\<close>

lemma generateId_not_proto: "generateId t r \<noteq> ''__proto__''"
proof
  assume eq: "generateId t r = ''__proto__''"
  obtain c cs where cs: "to_base36 t = c # cs"
    using to_base36_nonempty [of t] by (cases "to_base36 t") auto
  then have "c \<in> set digits36"
    using to_base36_digits [of t] by auto
  moreover from eq cs have "c = CHR ''_''"
    by (simp add: generateId_def)
  ultimately show False by (simp add: digits36_def)
qed


section \<open>Sorting and searching\<close>

lemma set_insert_sorted: "set (insert_sorted cmp x xs) = insert x (set xs)"
  by (induction xs) auto

lemma js_sort_Cons: "js_sort cmp (x # xs) = insert_sorted cmp x (js_sort cmp xs)"
  by (simp add: js_sort_def)

lemma set_js_sort: "set (js_sort cmp xs) = set xs"
  by (induction xs) (simp_all add: js_sort_def set_insert_sorted)

lemma length_js_sort: "length (js_sort cmp xs) = length xs"
proof (induction xs)
  case Nil
  show ?case by (simp add: js_sort_def)
next
  case (Cons x xs)
  have "length (insert_sorted cmp x ys) = Suc (length ys)" for ys
    by (induction ys) auto
  with Cons show ?case by (simp add: js_sort_Cons)
qed

lemma first_insert_sorted:
  assumes "\<forall>y \<in> set ys. cmp x y = key y - key x"
    and "ys = [] \<or> (\<exists>m. first_elem ys = Some m \<and> (\<forall>y \<in> set ys. key y \<le> key m))"
  shows "\<exists>m. first_elem (insert_sorted cmp x ys) = Some m \<and> m \<in> insert x (set ys)
           \<and> (\<forall>y \<in> insert x (set ys). key y \<le> (key m :: int))"
proof (cases ys)
  case Nil
  then show ?thesis by simp
next
  case (Cons y ys')
  with assms show ?thesis by (cases "cmp x y \<le> 0") force+
qed

lemma first_js_sort:
  assumes "\<forall>a \<in> set xs. \<forall>b \<in> set xs. cmp a b = key b - key a" and "xs \<noteq> []"
  shows "\<exists>m. first_elem (js_sort cmp xs) = Some m \<and> m \<in> set xs
           \<and> (\<forall>y \<in> set xs. key y \<le> (key m :: int))"
  using assms
proof (induction xs)
  case Nil
  then show ?case by simp
next
  case (Cons x xs)
  have cmpx: "\<forall>y \<in> set (js_sort cmp xs). cmp x y = key y - key x"
    using Cons.prems(1) by (simp add: set_js_sort)
  have hd_ok: "js_sort cmp xs = [] \<or>
      (\<exists>m. first_elem (js_sort cmp xs) = Some m \<and> (\<forall>y \<in> set (js_sort cmp xs). key y \<le> key m))"
  proof (cases xs)
    case Nil
    then show ?thesis by (simp add: js_sort_def)
  next
    case (Cons z zs)
    with Cons.IH Cons.prems(1) show ?thesis by (auto simp: set_js_sort)
  qed
  from first_insert_sorted [where cmp = cmp and key = key and x = x and ys = "js_sort cmp xs"]
    cmpx hd_ok
  show ?case
    by (simp add: js_sort_Cons set_js_sort)
qed








section \<open>Session selection on start\<close>

lemma by_updatedAt_desc_key:
  assumes "new_Date (chat_updatedAt a) \<noteq> None" and "new_Date (chat_updatedAt b) \<noteq> None"
  shows "by_updatedAt_desc a b =
           (case new_Date (chat_updatedAt b) of Some t \<Rightarrow> t | None \<Rightarrow> 0)
         - (case new_Date (chat_updatedAt a) of Some t \<Rightarrow> t | None \<Rightarrow> 0)"
  using assms by (auto simp: by_updatedAt_desc_def)

lemma later_or_equal_key:
  assumes "new_Date (chat_updatedAt a) \<noteq> None" and "new_Date (chat_updatedAt b) \<noteq> None"
  shows "later_or_equal a b \<longleftrightarrow>
           (case new_Date (chat_updatedAt b) of Some t \<Rightarrow> t | None \<Rightarrow> 0)
         \<le> (case new_Date (chat_updatedAt a) of Some t \<Rightarrow> t | None \<Rightarrow> (0::int))"
  using assms by (auto simp: later_or_equal_def)

lemma new_Date_read: "new_Date x \<noteq> None \<longleftrightarrow> read x \<noteq> Undefined"
  by (cases x) simp_all

lemma most_recent_first:
  assumes dated: "\<forall>s \<in> set xs. read (chat_updatedAt s) \<noteq> Undefined" and ne: "xs \<noteq> []"
  shows "\<exists>m. first_elem (js_sort by_updatedAt_desc xs) = Some m \<and> m \<in> set xs
           \<and> (\<forall>s \<in> set xs. later_or_equal m s)"
proof -
  define key where "key = (\<lambda>s :: chat_session. case new_Date (chat_updatedAt s) of Some t \<Rightarrow> t | None \<Rightarrow> (0::int))"
  have dated': "\<forall>s \<in> set xs. new_Date (chat_updatedAt s) \<noteq> None"
    using dated new_Date_read by blast
  have "\<forall>a \<in> set xs. \<forall>b \<in> set xs. by_updatedAt_desc a b = key b - key a"
    using dated' by (simp add: key_def by_updatedAt_desc_key)
  from first_js_sort [where cmp = by_updatedAt_desc and key = key, OF this ne]
  obtain m where m: "first_elem (js_sort by_updatedAt_desc xs) = Some m" "m \<in> set xs"
    "\<forall>y \<in> set xs. key y \<le> key m"
    by blast
  have "\<forall>s \<in> set xs. later_or_equal m s"
    using m(2,3) dated' by (simp add: later_or_equal_key key_def)
  with m show ?thesis by blast
qed

text \<open>
  C1. When at least one stored session is bound to the displayed document,
  \<open>loadChatSessions\<close> returns and makes current a session bound to that document that was
  updated no earlier than any other session bound to it, whatever the dates of the
  sessions bound to other documents. The stored sessions carry an \<open>updatedAt\<close>, as every
  record written by \<open>saveChatSession\<close> does.
\<close>

theorem loadChatSessions_prefers_document:
  assumes stored: "getChats ls = Some stored"
    and dated: "\<forall>s \<in> set stored. read (chat_updatedAt s) \<noteq> Undefined"
    and match: "\<exists>s \<in> set stored. read (chat_docId s) = Val (cd_id d)"
  shows "\<exists>s ci'. loadChatSessions (Some d) e (ci, ls) = Returns (ci', ls)
           \<and> currentSession ci' = Some s
           \<and> s \<in> set stored \<and> read (chat_docId s) = Val (cd_id d)
           \<and> (\<forall>s' \<in> set stored. read (chat_docId s') = Val (cd_id d) \<longrightarrow> later_or_equal s s')"
proof -
  let ?sorted = "js_sort by_updatedAt_desc stored"
  let ?docSessions = "filter (\<lambda>s. read (chat_docId s) = Val (cd_id d)) ?sorted"
  have set_doc: "set ?docSessions = {s \<in> set stored. read (chat_docId s) = Val (cd_id d)}"
    by (simp add: set_js_sort)
  have ne: "?docSessions \<noteq> []"
    using match set_doc by (metis (mono_tags, lifting) empty_iff empty_set mem_Collect_eq)
  have "\<forall>s \<in> set ?docSessions. read (chat_updatedAt s) \<noteq> Undefined"
    using dated set_doc by simp
  from most_recent_first [OF this ne]
  obtain m where m: "first_elem (js_sort by_updatedAt_desc ?docSessions) = Some m"
    "m \<in> set ?docSessions" "\<forall>s \<in> set ?docSessions. later_or_equal m s"
    by blast
  have stored_ne: "stored \<noteq> []"
    using match by auto
  let ?ci' = "ci\<lparr>sessions := ?sorted, associatedDocId := Val (cd_id d),
                  currentSession := Some m, messages := or_empty (chat_messages m)\<rparr>"
  have "loadChatSessions (Some d) e (ci, ls) = Returns (?ci', ls)"
    using stored stored_ne ne m(1) by (simp add: loadChatSessions_def Let_def)
  moreover have "currentSession ?ci' = Some m" by simp
  moreover have "m \<in> set stored" "read (chat_docId m) = Val (cd_id d)"
    using m(2) set_doc by auto
  moreover have "\<forall>s' \<in> set stored. read (chat_docId s') = Val (cd_id d) \<longrightarrow> later_or_equal m s'"
    using m(3) by (simp add: set_js_sort)
  ultimately show ?thesis by blast
qed

lemma getChats_S1_S2: "getChats storage_S1_S2 = Some [session_S1, session_S2]"
  by (simp add: storage_S1_S2_def getChats_def saveChats_def json_chat_def session_S1_def
      session_S2_def)

theorem loadChatSessions_prefers_document_witness:
  "getChats storage_S1_S2 = Some [session_S1, session_S2]
   \<and> by_updatedAt_desc session_S2 session_S1 < 0
   \<and> (\<exists>ci'. loadChatSessions (Some \<lparr>cd_id = ''D1'', cd_title = ''A''\<rparr>) env0 (ci0, storage_S1_S2)
               = Returns (ci', storage_S1_S2)
            \<and> currentSession ci' = Some session_S1)"
proof -
  note stored = getChats_S1_S2
  have dated: "\<forall>s \<in> set [session_S1, session_S2]. read (chat_updatedAt s) \<noteq> Undefined"
    by (simp add: session_S1_def session_S2_def)
  have match: "\<exists>s \<in> set [session_S1, session_S2].
      read (chat_docId s) = Val (cd_id \<lparr>cd_id = ''D1'', cd_title = ''A''\<rparr>)"
    by (simp add: session_S1_def)
  have other: "read (chat_docId session_S2) \<noteq> Val ''D1''" by (simp add: session_S2_def)
  from loadChatSessions_prefers_document [OF stored dated match, of env0 ci0] other
  have "\<exists>ci'. loadChatSessions (Some \<lparr>cd_id = ''D1'', cd_title = ''A''\<rparr>) env0 (ci0, storage_S1_S2)
               = Returns (ci', storage_S1_S2)
            \<and> currentSession ci' = Some session_S1"
    by auto
  moreover have "by_updatedAt_desc session_S2 session_S1 < 0"
    by (simp add: by_updatedAt_desc_def session_S1_def session_S2_def)
  ultimately show ?thesis using stored by simp
qed

text \<open>
  C2. When sessions are stored and none is bound to the displayed document, or no
  document is displayed, \<open>loadChatSessions\<close> returns and makes current a session that was
  updated no earlier than any other stored session, whatever its document.
\<close>

theorem loadChatSessions_fallback:
  assumes stored: "getChats ls = Some stored"
    and ne: "stored \<noteq> []"
    and dated: "\<forall>s \<in> set stored. read (chat_updatedAt s) \<noteq> Undefined"
    and nomatch: "case currentDoc of None \<Rightarrow> True
                  | Some d \<Rightarrow> \<forall>s \<in> set stored. read (chat_docId s) \<noteq> Val (cd_id d)"
  shows "\<exists>s ci'. loadChatSessions currentDoc e (ci, ls) = Returns (ci', ls)
           \<and> currentSession ci' = Some s
           \<and> s \<in> set stored \<and> (\<forall>s' \<in> set stored. later_or_equal s s')"
proof -
  from most_recent_first [OF dated ne]
  obtain m where m: "first_elem (js_sort by_updatedAt_desc stored) = Some m"
    "m \<in> set stored" "\<forall>s \<in> set stored. later_or_equal m s"
    by blast
  have "\<exists>ci'. loadChatSessions currentDoc e (ci, ls) = Returns (ci', ls)
      \<and> currentSession ci' = Some m"
  proof (cases currentDoc)
    case None
    with stored ne m(1) show ?thesis by (simp add: loadChatSessions_def Let_def)
  next
    case (Some d)
    with nomatch have "filter (\<lambda>s. read (chat_docId s) = Val (cd_id d))
        (js_sort by_updatedAt_desc stored) = []"
      by (simp add: filter_empty_conv set_js_sort)
    with Some stored ne m(1) show ?thesis by (simp add: loadChatSessions_def Let_def)
  qed
  with m show ?thesis by blast
qed

theorem loadChatSessions_fallback_witness:
  "(\<exists>ci'. loadChatSessions (Some \<lparr>cd_id = ''D3'', cd_title = ''C''\<rparr>) env0 (ci0, storage_S1_S2)
            = Returns (ci', storage_S1_S2)
         \<and> currentSession ci' = Some session_S2)
   \<and> (\<exists>ci'. loadChatSessions None env0 (ci0, storage_S1_S2) = Returns (ci', storage_S1_S2)
         \<and> currentSession ci' = Some session_S2)"
proof -
  note stored = getChats_S1_S2
  have ne: "[session_S1, session_S2] \<noteq> []" by simp
  have dated: "\<forall>s \<in> set [session_S1, session_S2]. read (chat_updatedAt s) \<noteq> Undefined"
    by (simp add: session_S1_def session_S2_def)
  have nomatch: "case Some \<lparr>cd_id = ''D3'', cd_title = ''C''\<rparr> of None \<Rightarrow> True
      | Some d \<Rightarrow> \<forall>s \<in> set [session_S1, session_S2]. read (chat_docId s) \<noteq> Val (cd_id d)"
    by (simp add: session_S1_def session_S2_def)
  have nodoc: "case (None :: current_doc option) of None \<Rightarrow> True
      | Some d \<Rightarrow> \<forall>s \<in> set [session_S1, session_S2]. read (chat_docId s) \<noteq> Val (cd_id d)"
    by simp
  have not_later: "\<not> later_or_equal session_S1 session_S2"
    by (simp add: later_or_equal_def session_S1_def session_S2_def)
  from loadChatSessions_fallback [OF stored ne dated nomatch, of env0 ci0] not_later
  have a: "\<exists>ci'. loadChatSessions (Some \<lparr>cd_id = ''D3'', cd_title = ''C''\<rparr>) env0
        (ci0, storage_S1_S2) = Returns (ci', storage_S1_S2)
      \<and> currentSession ci' = Some session_S2"
    by auto
  from loadChatSessions_fallback [OF stored ne dated nodoc, of env0 ci0] not_later
  have b: "\<exists>ci'. loadChatSessions None env0 (ci0, storage_S1_S2) = Returns (ci', storage_S1_S2)
      \<and> currentSession ci' = Some session_S2"
    by auto
  from a b show ?thesis by simp
qed

section \<open>Writing into the library\<close>

lemma proto_inherited: "''__proto__'' \<in> set inherited_keys"
  by (simp add: inherited_keys_def)

lemma js_get_plain: "k \<notin> set inherited_keys \<Longrightarrow> js_get obj k \<noteq> Inherited"
  by (simp add: js_get_def split: option.splits)

lemma js_get_ensureProject:
  "k \<notin> set inherited_keys \<Longrightarrow> \<exists>p. js_get (ensureProject root k) k = Own p"
  using proto_inherited
  by (cases "root k") (auto simp: ensureProject_def js_get_def js_set_def)

lemma js_get_ensureProject_inherited:
  "js_get root k = Inherited \<Longrightarrow> js_get (ensureProject root k) k = Inherited"
  by (simp add: ensureProject_def)


lemma libSaveDoc_inherited:
  "js_get (getLibRoot ls) k = Inherited \<Longrightarrow> libSaveDoc k n ls = Throws TypeError ls"
  by (simp add: libSaveDoc_def Let_def js_get_ensureProject_inherited)

lemma libSaveChat_plain:
  "k \<notin> set inherited_keys \<Longrightarrow> \<exists>root'. libSaveChat k n ls = Returns (setLibRoot root' ls)"
  using js_get_ensureProject [of k "getLibRoot ls"]
  by (auto simp: libSaveChat_def Let_def)

lemma libSaveChat_inherited:
  "js_get (getLibRoot ls) k = Inherited \<Longrightarrow> libSaveChat k n ls = Throws TypeError ls"
  by (simp add: libSaveChat_def Let_def js_get_ensureProject_inherited)

lemma getDocuments_setLibRoot [simp]: "getDocuments (setLibRoot r ls) = getDocuments ls"
  by (simp add: getDocuments_def setLibRoot_def)

lemma getChats_setLibRoot [simp]: "getChats (setLibRoot r ls) = getChats ls"
  by (simp add: getChats_def setLibRoot_def)

lemma getDocuments_saveDocuments [simp]:
  "getDocuments (saveDocuments ds ls) = Some (map json_document ds)"
  by (simp add: getDocuments_def saveDocuments_def)

lemma getChats_saveChats [simp]: "getChats (saveChats cs ls) = Some (map json_chat cs)"
  by (simp add: getChats_def saveChats_def)

lemma getLibRoot_saveDocuments [simp]: "getLibRoot (saveDocuments ds ls) = getLibRoot ls"
  by (simp add: getLibRoot_def saveDocuments_def)

lemma getLibRoot_saveChats [simp]: "getLibRoot (saveChats cs ls) = getLibRoot ls"
  by (simp add: getLibRoot_def saveChats_def)

lemma getLibRoot_setLibRoot [simp]: "getLibRoot (setLibRoot r ls) = json_root r"
  by (simp add: getLibRoot_def setLibRoot_def)

section \<open>Saving a document\<close>

lemma stored_documents_json: "map json_document (stored_documents ls) = stored_documents ls"
  by (simp add: stored_documents_def getDocuments_def split: cell.splits)

lemma stored_documents_nth_json:
  "i < length (stored_documents ls) \<Longrightarrow> json_document (stored_documents ls ! i) = stored_documents ls ! i"
  using stored_documents_json [of ls] by (metis nth_map)


text \<open>At an inherited name \<open>saveDocument\<close> throws and the collection is as it was.\<close>

lemma saveDocument_inherited:
  assumes "truthy_str p" and "js_get (getLibRoot ls) (string_of p) = Inherited"
  shows "saveDocument e d p ls = Throws TypeError ls"
  using assms by (simp add: saveDocument_def Let_def libSaveDoc_inherited)




lemma truthy_str_Val: "truthy_str x \<Longrightarrow> \<exists>v. x = Val v"
  by (cases x) simp_all






lemma stored_documents_seeded: "stored_documents seeded_storage = []"
  by (simp add: seeded_storage_def initializeStorage_def unset_storage_def stored_documents_def
      getDocuments_def saveDocuments_def getChats_def saveChats_def getUploadedFiles_def
      saveUploadedFiles_def getSettings_def saveSettings_def Let_def)

lemma saveDocument_no_project:
  "saveDocument e d Null ls =
     Returns (saveDocuments
       (case findIndex (\<lambda>doc. read (doc_id doc) = read (doc_id d)) (stored_documents ls) of
          Some i \<Rightarrow> (stored_documents ls)
            [i := merge_document (stored_documents ls ! i) (normalize_document e d)]
        | None \<Rightarrow> stored_documents ls @ [normalize_document e d]) ls)"
  unfolding saveDocument_def Let_def stored_documents_def by simp

lemma stored_documents_saveDocuments:
  "stored_documents (saveDocuments ds ls) = map json_document ds"
  by (simp add: stored_documents_def)



text \<open>
  An object with an id and no \<open>createdAt\<close>: each save reads the clock for \<open>createdAt\<close>, and
  in the spread the new reading overrides the stored one.
\<close>

lemma saveDocument_restamps_createdAt:
  "\<exists>ls1 ls2. saveDocument save_env1 doc_without_createdAt Null seeded_storage = Returns ls1
      \<and> saveDocument save_env2 doc_without_createdAt Null ls1 = Returns ls2
      \<and> map doc_createdAt (stored_documents ls1) = [Val 102]
      \<and> map doc_createdAt (stored_documents ls2) = [Val 202]"
  by (simp add: saveDocument_no_project stored_documents_saveDocuments stored_documents_seeded
      doc_without_createdAt_def normalize_document_def merge_document_def or_str_def or_time_def
      json_document_def save_env1_def save_env2_def)

text \<open>
  A project id that names an inherited property: \<open>libSaveDoc\<close> throws before the collection
  is written, so the save stores nothing.
\<close>

lemma saveDocument_throws_at_constructor:
  "saveDocument save_env1 doc_with_id (Val ''constructor'') seeded_storage
     = Throws TypeError seeded_storage"
proof -
  have "getLibRoot seeded_storage = Map.empty"
    by (simp add: seeded_storage_def initializeStorage_def unset_storage_def getLibRoot_def
        getDocuments_def saveDocuments_def getChats_def saveChats_def getUploadedFiles_def
        saveUploadedFiles_def getSettings_def saveSettings_def Let_def json_root_def)
  then have "js_get (getLibRoot seeded_storage) (string_of (Val ''constructor'')) = Inherited"
    by (simp add: js_get_def inherited_keys_def)
  then show ?thesis by (intro saveDocument_inherited) simp_all
qed

text \<open>Every record \<open>saveDocument\<close> writes carries an id.\<close>

lemma set_update_subset: "set (xs[i := y]) \<subseteq> insert y (set xs)"
  by (induction xs arbitrary: i) (auto split: nat.splits)




section \<open>The library mirror of a saved document\<close>

lemma replace_runs_example:
  "replace_runs False ''Intro: Chapter 1!'' @ ''.md'' = ''Intro_Chapter_1_.md''"
  by (simp add: word_char_def)

lemma sanitizeFileName_example:
  "sanitizeFileName ''Intro: Chapter 1!'' @ ''.md'' = ''intro__chapter_1_.md''"
  by (simp add: sanitizeFileName_def word_char_def to_lower_def)


lemma replace_runs_output:
  "\<forall>c \<in> set (replace_runs b s). word_char c"
proof (induction s arbitrary: b)
  case Nil
  show ?case by simp
next
  case (Cons c s)
  have "word_char CHR ''_''" by (simp add: word_char_def)
  with Cons show ?case by simp
qed

lemma replace_runs_collapse:
  "\<not> word_char c \<Longrightarrow> \<not> word_char c' \<Longrightarrow>
     replace_runs False (c # c' # s) = replace_runs False (c # s)"
  by simp




lemma constructor_inherited: "''constructor'' \<in> set inherited_keys"
  by (simp add: inherited_keys_def)




text \<open>
  The document id \<open>__proto__\<close>: the assignment \<open>docs['__proto__'] = ...\<close> makes no own
  property, so the save returns and the library has no entry for the document.
\<close>

lemma libSaveDoc_proto_id:
  assumes "k \<notin> set inherited_keys" and "getLibRoot ls k = None"
    and "string_of (doc_id doc) = ''__proto__''"
  shows "\<exists>ls' p. libSaveDoc k doc ls = Returns ls' \<and> getLibProject k ls' = Own p
           \<and> proj_docs p ''__proto__'' = None"
  using assms proto_inherited
  by (auto simp: libSaveDoc_def Let_def ensureProject_def js_get_def js_set_def getLibProject_def
      json_root_def json_project_def)

section \<open>Reading before and after the seeding\<close>

text \<open>
  C7, amended. A collection whose key was never written reads as \<open>null\<close>. After
  \<open>initializeStorage\<close>, each of the three list collections (documents, chats, uploaded
  files) reads as the empty list, and the settings collection reads as the default
  settings object.
\<close>

theorem getAll_unset_then_seeded:
  assumes "key_unset c ls"
  shows "getAll c ls = None
       \<and> (c \<noteq> Settings \<longrightarrow> (\<exists>v. getAll c (initializeStorage ls) = Some v \<and> is_empty_list v))
       \<and> (c = Settings \<longrightarrow> getAll c (initializeStorage ls) = Some (SettingsObject default_settings))"
proof (cases c)
  case Documents
  with assms show ?thesis
    by (simp add: initializeStorage_def Let_def getDocuments_def saveDocuments_def getChats_def
        saveChats_def getUploadedFiles_def saveUploadedFiles_def getSettings_def saveSettings_def)
next
  case Chats
  with assms show ?thesis
    by (simp add: initializeStorage_def Let_def getDocuments_def saveDocuments_def getChats_def
        saveChats_def getUploadedFiles_def saveUploadedFiles_def getSettings_def saveSettings_def)
next
  case UploadedFiles
  with assms show ?thesis
    by (simp add: initializeStorage_def Let_def getDocuments_def saveDocuments_def getChats_def
        saveChats_def getUploadedFiles_def saveUploadedFiles_def getSettings_def saveSettings_def)
next
  case Settings
  with assms show ?thesis
    by (simp add: initializeStorage_def Let_def getDocuments_def saveDocuments_def getChats_def
        saveChats_def getUploadedFiles_def saveUploadedFiles_def getSettings_def saveSettings_def)
qed

theorem getAll_unset_then_seeded_witness:
  "key_unset Documents unset_storage
   \<and> getAll Documents unset_storage = None
   \<and> getAll Documents (initializeStorage unset_storage) = Some (DocumentList [])"
proof -
  have k: "key_unset Documents unset_storage" by (simp add: unset_storage_def)
  from getAll_unset_then_seeded [OF k] obtain v where
    "getAll Documents unset_storage = None"
    "getAll Documents (initializeStorage unset_storage) = Some v" "is_empty_list v"
    by auto
  with k show ?thesis by (cases v) auto
qed

text \<open>
  C7, as stated, at the settings collection: after the seeding it reads as the default
  settings object, which is not an empty list.
\<close>

theorem getAll_settings_counterexample:
  "getAll Settings unset_storage = None
   \<and> getAll Settings (initializeStorage unset_storage) = Some (SettingsObject default_settings)
   \<and> \<not> is_empty_list (SettingsObject default_settings)"
  by (simp add: unset_storage_def initializeStorage_def Let_def getDocuments_def saveDocuments_def
      getChats_def saveChats_def getUploadedFiles_def saveUploadedFiles_def getSettings_def
      saveSettings_def)

section \<open>Switching to an unknown session\<close>

lemma find_first_None_iff: "find_first P xs = None \<longleftrightarrow> (\<forall>x \<in> set xs. \<not> P x)"
  by (induction xs) auto

text \<open>
  C8. \<open>switchSession\<close> with an id that no stored session has returns with the chat
  interface and the storage as they were: whatever the id and the state, the call does
  not throw on this path, where \<open>getChats\<close> catches a failing parse and \<open>find\<close> has an array.
\<close>

theorem switchSession_unknown_id:
  assumes "\<forall>s \<in> set (stored_chats (snd st)). read (chat_id s) \<noteq> read sessionId"
  shows "switchSession sessionId e st = Returns st"
proof -
  have "find_first (\<lambda>s. read (chat_id s) = read sessionId) (stored_chats (snd st)) = None"
    using assms by (simp add: find_first_None_iff)
  then show ?thesis
    by (simp add: switchSession_def stored_chats_def Let_def)
qed

lemma stored_chats_S1_S2: "stored_chats storage_S1_S2 = [session_S1, session_S2]"
  by (simp add: stored_chats_def getChats_S1_S2)

theorem switchSession_unknown_id_witness:
  "switchSession (Val ''s9'') env0 (ci0\<lparr>currentSession := Some session_S1\<rparr>, storage_S1_S2)
     = Returns (ci0\<lparr>currentSession := Some session_S1\<rparr>, storage_S1_S2)"
proof -
  have "\<forall>s \<in> set (stored_chats (snd (ci0\<lparr>currentSession := Some session_S1\<rparr>, storage_S1_S2))).
      read (chat_id s) \<noteq> read (Val ''s9'')"
    by (simp add: stored_chats_S1_S2 session_S1_def session_S2_def)
  from switchSession_unknown_id [OF this] show ?thesis .
qed

section \<open>Saving a chat session\<close>

lemma stored_chats_json: "map json_chat (stored_chats ls) = stored_chats ls"
  by (simp add: stored_chats_def getChats_def split: cell.splits)

text \<open>
  \<open>saveChatSession\<close> groups under the project id, else under the session's \<open>docId\<close>. It
  returns at every grouping key but an inherited name, and the collection then reads as
  the upsert gives it.
\<close>

lemma saveChatSession_plain:
  assumes "plain_group (or_str (or_str p (chat_docId c)) Null)"
  shows "\<exists>ls'. saveChatSession e c p ls = Returns ls'
           \<and> getChats ls' = Some (stored_chats ls')
           \<and> stored_chats ls' = upsert_chat e c (stored_chats ls)"
proof -
  let ?chats = "stored_chats ls"
  let ?n = "normalize_chat e c"
  let ?proj = "or_str (or_str p (chat_docId ?n)) Null"
  let ?chats' = "case findIndex (\<lambda>chat. read (chat_id chat) = read (chat_id c)) ?chats of
      Some i \<Rightarrow> ?chats[i := merge_chat (?chats ! i) ?n]
    | None \<Rightarrow> ?chats @ [?n]"
  have docn: "chat_docId ?n = chat_docId c" by (simp add: normalize_chat_def)
  have norm: "map json_chat ?chats' = upsert_chat e c ?chats"
    by (simp add: upsert_chat_def map_update stored_chats_json split: option.splits)
  have "\<exists>ls0. saveChatSession e c p ls = Returns (saveChats ?chats' ls0)"
  proof (cases "truthy_str ?proj")
    case False
    then show ?thesis
      unfolding saveChatSession_def Let_def stored_chats_def by auto
  next
    case True
    with assms have "string_of ?proj \<notin> set inherited_keys" by (simp add: plain_group_def docn)
    from libSaveChat_plain [OF this, of ?n ls]
    obtain root' where "libSaveChat (string_of ?proj) ?n ls = Returns (setLibRoot root' ls)" ..
    with True show ?thesis
      unfolding saveChatSession_def Let_def stored_chats_def by auto
  qed
  then obtain ls0 where "saveChatSession e c p ls = Returns (saveChats ?chats' ls0)" ..
  moreover have "getChats (saveChats ?chats' ls0) = Some (map json_chat ?chats')"
    by simp
  ultimately show ?thesis
    unfolding norm [symmetric] by (auto simp: stored_chats_def)
qed

text \<open>
  At a grouping key that reads as inherited \<open>saveChatSession\<close> throws, and the chats
  collection is as it was.
\<close>

lemma saveChatSession_inherited:
  assumes "truthy_str (or_str (or_str p (chat_docId c)) Null)"
    and "js_get (getLibRoot ls) (string_of (or_str (or_str p (chat_docId c)) Null)) = Inherited"
  shows "saveChatSession e c p ls = Throws TypeError ls"
proof -
  have docn: "chat_docId (normalize_chat e c) = chat_docId c" by (simp add: normalize_chat_def)
  show ?thesis
    using assms by (simp add: saveChatSession_def Let_def docn libSaveChat_inherited)
qed

lemma normalize_chat_fields:
  "truthy_str (chat_id c) \<Longrightarrow> chat_id (normalize_chat e c) = chat_id c"
  "chat_messages (normalize_chat e c) = chat_messages c"
  "chat_updatedAt (normalize_chat e c) = Val (now_updated e)"
  "chat_docId (normalize_chat e c) = chat_docId c"
  by (simp_all add: normalize_chat_def or_str_def)

lemma truthy_chat_id_normalized: "truthy_str (chat_id (normalize_chat e c))"
  by (simp add: normalize_chat_def or_str_def generateId_nonempty)

lemma stored_chat_of_normalized:
  "chat_updatedAt (json_chat (normalize_chat e c)) = Val (now_updated e)"
  "chat_messages c = Val ms \<Longrightarrow>
     chat_messages (json_chat (normalize_chat e c)) = Val (map json_message ms)"
  "truthy_str (chat_id c) \<Longrightarrow>
     read (chat_id (json_chat (normalize_chat e c))) = read (chat_id c)"
  by (simp_all add: json_chat_fields normalize_chat_fields)

lemma stored_chat_of_merged:
  "chat_updatedAt (json_chat (merge_chat old (normalize_chat e c))) = Val (now_updated e)"
  "chat_messages c = Val ms \<Longrightarrow>
     chat_messages (json_chat (merge_chat old (normalize_chat e c))) = Val (map json_message ms)"
  "truthy_str (chat_id c) \<Longrightarrow>
     read (chat_id (json_chat (merge_chat old (normalize_chat e c)))) = read (chat_id c)"
  using truthy_chat_id_normalized [where e = e and c = c]
  by (simp_all add: json_chat_fields merge_chat_def normalize_chat_fields overlay_truthy)


text \<open>Every record \<open>saveChatSession\<close> writes carries an \<open>updatedAt\<close>.\<close>

lemma upsert_chat_keeps_dated:
  assumes "\<forall>s \<in> set chats. read (chat_updatedAt s) \<noteq> Undefined"
  shows "\<forall>s \<in> set (upsert_chat e c chats). read (chat_updatedAt s) \<noteq> Undefined"
proof (cases "findIndex (\<lambda>chat. read (chat_id chat) = read (chat_id c)) chats")
  case None
  with assms show ?thesis
    by (simp add: upsert_chat_def stored_chat_of_normalized(1))
next
  case (Some i)
  let ?y = "json_chat (merge_chat (chats ! i) (normalize_chat e c))"
  have sub: "set (chats[i := ?y]) \<subseteq> insert ?y (set chats)"
    by (rule set_update_subset)
  have "\<forall>s \<in> insert ?y (set chats). read (chat_updatedAt s) \<noteq> Undefined"
    using assms by (simp add: stored_chat_of_merged(1))
  with sub have "\<forall>s \<in> set (chats[i := ?y]). read (chat_updatedAt s) \<noteq> Undefined"
    by blast
  with Some show ?thesis by (simp add: upsert_chat_def)
qed

lemma saveChatSession_keeps_dated:
  assumes "\<forall>s \<in> set (stored_chats ls). read (chat_updatedAt s) \<noteq> Undefined"
    and "saveChatSession e c p ls = Returns ls'"
  shows "\<forall>s \<in> set (stored_chats ls'). read (chat_updatedAt s) \<noteq> Undefined"
proof -
  have "stored_chats ls' = upsert_chat e c (stored_chats ls)"
  proof (cases "plain_group (or_str (or_str p (chat_docId c)) Null)")
    case True
    from saveChatSession_plain [OF True, of e ls] assms(2) show ?thesis by auto
  next
    case False
    then have t: "truthy_str (or_str (or_str p (chat_docId c)) Null)"
      and k: "string_of (or_str (or_str p (chat_docId c)) Null) \<in> set inherited_keys"
      by (simp_all add: plain_group_def)
    have docn: "chat_docId (normalize_chat e c) = chat_docId c" by (simp add: normalize_chat_def)
    have "\<exists>ls0. libSaveChat (string_of (or_str (or_str p (chat_docId c)) Null))
        (normalize_chat e c) ls = Returns (setLibRoot ls0 ls)"
      using assms(2) t
      by (auto simp: saveChatSession_def Let_def docn libSaveChat_def
          split: slot.splits outcome.splits)
    then obtain r0 where "libSaveChat (string_of (or_str (or_str p (chat_docId c)) Null))
        (normalize_chat e c) ls = Returns (setLibRoot r0 ls)" ..
    with assms(2) t have "ls' = saveChats
        (case findIndex (\<lambda>chat. read (chat_id chat) = read (chat_id c)) (stored_chats ls) of
           Some i \<Rightarrow> (stored_chats ls)[i := merge_chat (stored_chats ls ! i) (normalize_chat e c)]
         | None \<Rightarrow> stored_chats ls @ [normalize_chat e c]) (setLibRoot r0 ls)"
      unfolding saveChatSession_def Let_def stored_chats_def docn by auto
    then show ?thesis
      by (simp add: stored_chats_def [of "saveChats _ _"] upsert_chat_def map_update
          stored_chats_json split: option.splits)
  qed
  with upsert_chat_keeps_dated [OF assms(1)] show ?thesis by simp
qed

section \<open>Deleting a chat session\<close>

lemma getLibRoot_libSaveChat:
  assumes k: "k \<notin> set inherited_keys" and i: "string_of (chat_id chat) \<noteq> ''__proto__''"
  shows "\<exists>ls' p. libSaveChat k chat ls = Returns ls' \<and> getLibRoot ls' k = Some p
       \<and> getChats ls' = getChats ls
       \<and> proj_chats p (string_of (chat_id chat)) =
           Some \<lparr>cm_chat = json_chat chat, cm_contentType = ''json'',
                 cm_fileName = replace_runs False (string_of (or_str (chat_title chat) (Val ''chat'')))
                   @ ''.json''\<rparr>"
proof -
  let ?root = "ensureProject (getLibRoot ls) k"
  from js_get_ensureProject [OF k, of "getLibRoot ls"]
  obtain p where p: "js_get ?root k = Own p" by blast
  show ?thesis
    using p i
    by (simp add: libSaveChat_def Let_def json_root_def json_project_def js_set_def)
qed

text \<open>
  With no project id \<open>saveChatSession\<close> groups under the session's \<open>docId\<close>: when that is
  no inherited name and the session's id is not \<open>__proto__\<close>, the library holds the session
  under the \<open>docId\<close> afterwards.
\<close>

lemma saveChatSession_mirrors_under_docId:
  assumes noproj: "\<not> truthy_str projectId" and docid: "truthy_str (chat_docId c)"
    and k: "string_of (chat_docId c) \<notin> set inherited_keys"
    and i: "string_of (chat_id (normalize_chat e c)) \<noteq> ''__proto__''"
  shows "\<exists>ls1 p m. saveChatSession e c projectId ls = Returns ls1
       \<and> getLibProject (string_of (chat_docId c)) ls1 = Own p
       \<and> proj_chats p (string_of (chat_id (normalize_chat e c))) = Some m
       \<and> cm_chat m = json_chat (normalize_chat e c)"
proof -
  let ?n = "normalize_chat e c"
  have docn: "chat_docId ?n = chat_docId c" by (simp add: normalize_chat_def)
  have proj: "or_str (or_str projectId (chat_docId ?n)) Null = chat_docId c"
    using noproj docid by (simp add: or_str_def docn read_truthy)
  from getLibRoot_libSaveChat [OF k i, of ls]
  obtain ls0 p where p: "libSaveChat (string_of (chat_docId c)) ?n ls = Returns ls0"
    "getLibRoot ls0 (string_of (chat_docId c)) = Some p"
    "proj_chats p (string_of (chat_id ?n)) =
       Some \<lparr>cm_chat = json_chat ?n, cm_contentType = ''json'',
             cm_fileName = replace_runs False (string_of (or_str (chat_title ?n) (Val ''chat'')))
               @ ''.json''\<rparr>"
    by blast
  then show ?thesis
    using docid
    by (simp add: saveChatSession_def Let_def proj getLibProject_def js_get_def)
qed

lemma deleteChatSession_no_project:
  assumes noproj: "\<not> truthy_str projectId"
  shows "\<exists>ls'. deleteChatSession i projectId ls = Returns ls' \<and> ls_lib ls' = ls_lib ls
       \<and> getChatSession i ls' = Inr None"
proof -
  let ?kept = "filter (\<lambda>chat. read (chat_id chat) \<noteq> read i) (stored_chats ls)"
  have del: "deleteChatSession i projectId ls = Returns (saveChats ?kept ls)"
    using noproj by (simp add: deleteChatSession_def Let_def stored_chats_def)
  have "find_first (\<lambda>chat. read (chat_id chat) = read i) (map json_chat ?kept) = None"
    by (simp add: find_first_None_iff json_chat_fields read_json_prop)
  then have "getChatSession i (saveChats ?kept ls) = Inr None"
    by (simp add: getChatSession_def)
  moreover have "ls_lib (saveChats ?kept ls) = ls_lib ls" by (simp add: saveChats_def)
  ultimately show ?thesis using del by simp
qed

text \<open>
  C10. \<open>deleteChatSession\<close> without a project id returns, writes the chats collection only
  and leaves the library key as it was. So when \<open>saveChatSession\<close>, for want of a project
  id, has left a chat in the mirror under its \<open>docId\<close>, the entry is still in the mirror
  after the chat is deleted from the chats collection. The entry is there whenever the
  \<open>docId\<close> is no inherited name and the chat's id is not \<open>__proto__\<close>.
\<close>

theorem deleteChatSession_without_project_keeps_library:
  assumes noproj: "\<not> truthy_str projectId"
  shows "(\<exists>ls'. deleteChatSession i projectId ls = Returns ls' \<and> ls_lib ls' = ls_lib ls
            \<and> getChatSession i ls' = Inr None)
       \<and> (\<forall>ls1 p m. saveChatSession e c projectId ls = Returns ls1
              \<and> getLibProject (string_of (chat_docId c)) ls1 = Own p
              \<and> proj_chats p (string_of (chat_id (normalize_chat e c))) = Some m
            \<longrightarrow> (\<exists>ls2. deleteChatSession (chat_id (normalize_chat e c)) projectId ls1 = Returns ls2
                   \<and> getLibProject (string_of (chat_docId c)) ls2 = Own p
                   \<and> getChatSession (chat_id (normalize_chat e c)) ls2 = Inr None))
       \<and> (truthy_str (chat_docId c) \<and> string_of (chat_docId c) \<notin> set inherited_keys
            \<and> string_of (chat_id (normalize_chat e c)) \<noteq> ''__proto__''
            \<longrightarrow> (\<exists>ls1 p m. saveChatSession e c projectId ls = Returns ls1
                   \<and> getLibProject (string_of (chat_docId c)) ls1 = Own p
                   \<and> proj_chats p (string_of (chat_id (normalize_chat e c))) = Some m
                   \<and> cm_chat m = json_chat (normalize_chat e c)))"
proof -
  let ?i = "chat_id (normalize_chat e c)"
  let ?k = "string_of (chat_docId c)"
  have frame: "\<exists>ls'. deleteChatSession j projectId s = Returns ls' \<and> ls_lib ls' = ls_lib s
       \<and> getChatSession j ls' = Inr None" for j s
    by (rule deleteChatSession_no_project [OF noproj])
  have kept: "\<exists>ls2. deleteChatSession ?i projectId ls1 = Returns ls2
        \<and> getLibProject ?k ls2 = Own p \<and> getChatSession ?i ls2 = Inr None"
    if "getLibProject ?k ls1 = Own p" for ls1 p
  proof -
    from frame [of ?i ls1] obtain ls2 where d:
      "deleteChatSession ?i projectId ls1 = Returns ls2" "ls_lib ls2 = ls_lib ls1"
      "getChatSession ?i ls2 = Inr None" by blast
    from d(2) have "getLibProject ?k ls2 = getLibProject ?k ls1"
      by (simp add: getLibProject_def getLibRoot_def)
    with d that show ?thesis by simp
  qed
  have present: "\<exists>ls1 p m. saveChatSession e c projectId ls = Returns ls1
        \<and> getLibProject ?k ls1 = Own p \<and> proj_chats p (string_of ?i) = Some m
        \<and> cm_chat m = json_chat (normalize_chat e c)"
    if "truthy_str (chat_docId c)" "?k \<notin> set inherited_keys" "string_of ?i \<noteq> ''__proto__''"
    using saveChatSession_mirrors_under_docId [OF noproj that] .
  from frame [of i ls] kept present show ?thesis by blast
qed

lemma D1_plain: "''D1'' \<notin> set inherited_keys"
  by (simp add: inherited_keys_def)

theorem deleteChatSession_without_project_keeps_library_witness:
  "\<not> truthy_str Null
   \<and> (\<exists>ls1 ls2 p m. saveChatSession save_env1 session_S1 Null seeded_storage = Returns ls1
         \<and> getLibProject ''D1'' ls1 = Own p \<and> proj_chats p ''s1'' = Some m
         \<and> deleteChatSession (Val ''s1'') Null ls1 = Returns ls2
         \<and> getLibProject ''D1'' ls2 = Own p
         \<and> getChatSession (Val ''s1'') ls2 = Inr None)"
proof -
  have a: "\<not> truthy_str Null" by simp
  have n: "chat_id (normalize_chat save_env1 session_S1) = Val ''s1''"
    by (simp add: normalize_chat_def or_str_def session_S1_def)
  have d: "chat_docId session_S1 = Val ''D1''" by (simp add: session_S1_def)
  note inst = deleteChatSession_without_project_keeps_library
    [OF a, where e = save_env1 and c = session_S1 and ls = seeded_storage and i = "Val ''s1''"]
  from inst have present: "\<exists>ls1 p m. saveChatSession save_env1 session_S1 Null seeded_storage = Returns ls1
      \<and> getLibProject ''D1'' ls1 = Own p \<and> proj_chats p ''s1'' = Some m"
    using D1_plain by (simp add: n d) blast
  then obtain ls1 p m where s:
    "saveChatSession save_env1 session_S1 Null seeded_storage = Returns ls1"
    "getLibProject ''D1'' ls1 = Own p" "proj_chats p ''s1'' = Some m" by blast
  from inst s have "\<exists>ls2. deleteChatSession (Val ''s1'') Null ls1 = Returns ls2
      \<and> getLibProject ''D1'' ls2 = Own p \<and> getChatSession (Val ''s1'') ls2 = Inr None"
    by (simp add: n d)
  with s a show ?thesis by blast
qed

text \<open>
  A \<open>docId\<close> that names an inherited property: \<open>saveChatSession\<close> throws at the library
  write, before the collection is written.
\<close>

lemma saveChatSession_throws_at_constructor:
  "saveChatSession save_env1 (session_S1\<lparr>chat_docId := Val ''constructor''\<rparr>) Null seeded_storage
     = Throws TypeError seeded_storage"
proof -
  have "getLibRoot seeded_storage = Map.empty"
    by (simp add: seeded_storage_def initializeStorage_def unset_storage_def getLibRoot_def
        getDocuments_def saveDocuments_def getChats_def saveChats_def getUploadedFiles_def
        saveUploadedFiles_def getSettings_def saveSettings_def Let_def json_root_def)
  then have "js_get (getLibRoot seeded_storage) ''constructor'' = Inherited"
    by (simp add: js_get_def inherited_keys_def)
  then show ?thesis
    by (intro saveChatSession_inherited) (simp_all add: or_str_def)
qed

section \<open>Switching and creating sessions\<close>





text \<open>
  The same switch when \<open>A\<close> is bound to a document whose id names an inherited property:
  the save of \<open>A\<close> throws at the library write, \<open>B\<close> is not made current, and the chats
  collection is as it was.
\<close>

lemma switchSession_throws_at_constructor:
  "\<exists>ci'. switchSession (Val ''s2'') env0
        (pushMessage sample_message
           (ci0\<lparr>currentSession := Some (session_S1\<lparr>chat_docId := Val ''constructor''\<rparr>)\<rparr>),
         storage_S1_S2)
      = Throws TypeError (ci', storage_S1_S2)
     \<and> currentSession ci' \<noteq> Some session_S2"
proof -
  let ?A = "session_S1\<lparr>chat_docId := Val ''constructor''\<rparr>"
  let ?ci = "pushMessage sample_message (ci0\<lparr>currentSession := Some ?A\<rparr>)"
  let ?A' = "?A\<lparr>chat_messages := Val (messages ?ci), chat_updatedAt := Val (ce_save_now env0),
      chat_docId := or_str (or_str (associatedDocId ?ci) (chat_docId ?A)) Null\<rparr>"
  have "getLibRoot storage_S1_S2 = Map.empty"
    by (simp add: storage_S1_S2_def seeded_storage_def initializeStorage_def unset_storage_def
        getLibRoot_def getDocuments_def saveDocuments_def getChats_def saveChats_def
        getUploadedFiles_def saveUploadedFiles_def getSettings_def saveSettings_def Let_def
        json_root_def)
  then have inh: "js_get (getLibRoot storage_S1_S2) ''constructor'' = Inherited"
    by (simp add: js_get_def inherited_keys_def)
  have doc: "chat_docId ?A' = Val ''constructor''"
    by (simp add: or_str_def pushMessage_def ci0_def)
  have "saveChatSession (ce_store env0) ?A' Null storage_S1_S2 = Throws TypeError storage_S1_S2"
    by (rule saveChatSession_inherited) (simp_all only: doc, simp_all add: or_str_def inh)
  then have "ci_saveChatSession env0 (?ci, storage_S1_S2)
      = Throws TypeError (?ci\<lparr>currentSession := Some ?A'\<rparr>, storage_S1_S2)"
    by (simp add: ci_saveChatSession_def Let_def pushMessage_def)
  moreover have "find_first (\<lambda>s. read (chat_id s) = read (Val ''s2'')) (stored_chats storage_S1_S2)
      = Some session_S2"
    by (simp add: stored_chats_S1_S2 session_S1_def session_S2_def)
  ultimately have "switchSession (Val ''s2'') env0 (?ci, storage_S1_S2)
      = Throws TypeError (?ci\<lparr>currentSession := Some ?A'\<rparr>, storage_S1_S2)"
    by (simp add: switchSession_def stored_chats_def Let_def pushMessage_def)
  moreover have "Some ?A' \<noteq> Some session_S2"
    by (simp add: session_S1_def session_S2_def)
  ultimately show ?thesis by simp
qed

section \<open>Creating a session\<close>





text \<open>
  \<open>createNewSession(true)\<close> while the editor displays a document whose id names an
  inherited property: the save throws at the library write, and the chats collection is
  as it was; the new session is current in memory only.
\<close>

lemma createNewSession_throws_at_constructor:
  "\<exists>ci'. createNewSession True (Some \<lparr>cd_id = ''constructor'', cd_title = ''A''\<rparr>) env0
        (ci0, storage_S1_S2)
      = Throws TypeError (ci', storage_S1_S2)"
proof -
  have "getLibRoot storage_S1_S2 = Map.empty"
    by (simp add: storage_S1_S2_def seeded_storage_def initializeStorage_def unset_storage_def
        getLibRoot_def getDocuments_def saveDocuments_def getChats_def saveChats_def
        getUploadedFiles_def saveUploadedFiles_def getSettings_def saveSettings_def Let_def
        json_root_def)
  then have inh: "js_get (getLibRoot storage_S1_S2) ''constructor'' = Inherited"
    by (simp add: js_get_def inherited_keys_def)
  have "saveChatSession (ce_store env0) c Null storage_S1_S2 = Throws TypeError storage_S1_S2"
    if "chat_docId c = Val ''constructor''" for c
    by (rule saveChatSession_inherited) (simp_all only: that, simp_all add: or_str_def inh)
  then show ?thesis
    by (simp add: createNewSession_def ci_saveChatSession_def Let_def pushMessage_def
        or_str_def ci0_def)
qed

end
